theory Spec2Isabelle
  imports Complex_Main "HOL-Library.Product_Lexorder"
begin

section \<open>Calendar dates\<close>

text \<open>
  The script keeps dates as pandas timestamps parsed from day-month-year text (midnight of a
  calendar day). Only the calendar day matters to the computation: the joins compare dates
  for equality, and the grouping reads \<^verbatim>\<open>.dt.year\<close> and \<^verbatim>\<open>.dt.dayofyear\<close>.
\<close>

record Timestamp =
  year :: int
  month :: nat
  day :: nat

definition is_leap_year :: "int \<Rightarrow> bool" where
  "is_leap_year y = (y mod 4 = 0 \<and> (y mod 100 \<noteq> 0 \<or> y mod 400 = 0))"

definition days_in_month :: "int \<Rightarrow> nat \<Rightarrow> nat" where
  "days_in_month y m =
     (if m = 2 then (if is_leap_year y then 29 else 28)
      else if m = 4 \<or> m = 6 \<or> m = 9 \<or> m = 11 then 30 else 31)"

definition valid_date :: "Timestamp \<Rightarrow> bool" where
  "valid_date ts =
     (1 \<le> month ts \<and> month ts \<le> 12 \<and> 1 \<le> day ts \<and> day ts \<le> days_in_month (year ts) (month ts))"

text \<open>\<^verbatim>\<open>.dt.dayofyear\<close>: 1 for the first of January, leap-year aware.\<close>

definition dayofyear :: "Timestamp \<Rightarrow> nat" where
  "dayofyear ts = sum_list (map (days_in_month (year ts)) [1..<month ts]) + day ts"

section \<open>Tables\<close>

text \<open>
  A numeric column holds floats, and pandas writes a missing value as NaN. A cell is
  modelled as \<open>real option\<close>: \<open>None\<close> is NaN, \<open>Some v\<close> a number. Arithmetic on the
  numbers is exact real arithmetic; the rounding of float64 is not modelled.
\<close>

record usage_row =
  Date :: Timestamp
  Usage :: "real option"

record temp_row =
  t_Date :: Timestamp
  t_Min_Temp_C :: "real option"
  t_Max_Temp_C :: "real option"
  t_Avg_Temp_C :: "real option"

record merged_row = usage_row +
  Min_Temp_C :: "real option"
  Max_Temp_C :: "real option"
  Avg_Temp_C :: "real option"

definition no_temp :: "usage_row \<Rightarrow> merged_row" where
  "no_temp l = \<lparr>Date = Date l, Usage = Usage l,
                 Min_Temp_C = None, Max_Temp_C = None, Avg_Temp_C = None\<rparr>"

definition with_temp :: "usage_row \<Rightarrow> temp_row \<Rightarrow> merged_row" where
  "with_temp l t = \<lparr>Date = Date l, Usage = Usage l,
                     Min_Temp_C = t_Min_Temp_C t, Max_Temp_C = t_Max_Temp_C t,
                     Avg_Temp_C = t_Avg_Temp_C t\<rparr>"

text \<open>
  \<^verbatim>\<open>pd.merge(left, right, on='Date', how='left')\<close>: the rows of the left table in their
  order; each one is paired with every right row of the same date, in the right table's
  order, and a left row without a match appears once with NaN in the right table's columns.
\<close>

definition merge_left :: "usage_row list \<Rightarrow> temp_row list \<Rightarrow> merged_row list" where
  "merge_left left right =
     concat (map (\<lambda>l. case filter (\<lambda>t. t_Date t = Date l) right of
                          [] \<Rightarrow> [no_temp l]
                        | ms \<Rightarrow> map (with_temp l) ms) left)"

section \<open>Missing values\<close>

text \<open>The numbers of a column, NaN left out: what a pandas reduction with \<^verbatim>\<open>skipna\<close> sees.\<close>

definition present :: "real option list \<Rightarrow> real list" where
  "present xs = concat (map (\<lambda>x. case x of None \<Rightarrow> [] | Some v \<Rightarrow> [v]) xs)"

text \<open>\<^verbatim>\<open>.sum()\<close>: NaN is skipped, and the sum of nothing is 0.\<close>

definition nansum :: "real option list \<Rightarrow> real" where
  "nansum xs = sum_list (present xs)"

text \<open>\<^verbatim>\<open>.mean()\<close>: NaN is skipped, and the mean of nothing is NaN.\<close>

definition nanmean :: "real option list \<Rightarrow> real option" where
  "nanmean xs =
     (let vs = present xs
      in if vs = [] then None else Some (sum_list vs / real (length vs)))"

text \<open>Subtraction of two cells: NaN on either side gives NaN.\<close>

definition sub_cell :: "real option \<Rightarrow> real option \<Rightarrow> real option" where
  "sub_cell a b =
     (case a of None \<Rightarrow> None
      | Some x \<Rightarrow> (case b of None \<Rightarrow> None | Some y \<Rightarrow> Some (x - y)))"

section \<open>Correlation\<close>

text \<open>
  \<^verbatim>\<open>merged['Usage'].corr(merged['Avg_Temp_C'])\<close>: Pearson's coefficient over the rows
  where both columns hold a number. With no such row, or with a column of zero variance,
  the result is NaN.
\<close>

definition valid_pairs :: "merged_row list \<Rightarrow> (real \<times> real) list" where
  "valid_pairs rows =
     concat (map (\<lambda>r. case Usage r of None \<Rightarrow> []
                       | Some u \<Rightarrow> (case Avg_Temp_C r of None \<Rightarrow> [] | Some t \<Rightarrow> [(u, t)])) rows)"

definition pearson :: "(real \<times> real) list \<Rightarrow> real option" where
  "pearson ps =
     (if ps = [] then None
      else let n = real (length ps);
               mx = sum_list (map fst ps) / n;
               my = sum_list (map snd ps) / n;
               sxy = sum_list (map (\<lambda>(x, y). (x - mx) * (y - my)) ps);
               sxx = sum_list (map (\<lambda>(x, y). (x - mx) * (x - mx)) ps);
               syy = sum_list (map (\<lambda>(x, y). (y - my) * (y - my)) ps)
           in if sxx * syy = 0 then None else Some (sxy / sqrt (sxx * syy)))"

definition corr :: "merged_row list \<Rightarrow> real option" where
  "corr rows = pearson (valid_pairs rows)"

section \<open>Grouping by year and day of year\<close>

text \<open>
  The added columns \<^verbatim>\<open>Year\<close> and \<^verbatim>\<open>DayOfYear\<close>, and the group key made of both.
  Keys are compared year first, then day of year.
\<close>

definition Year :: "merged_row \<Rightarrow> int" where
  "Year r = year (Date r)"

definition DayOfYear :: "merged_row \<Rightarrow> nat" where
  "DayOfYear r = dayofyear (Date r)"

type_synonym key = "int \<times> nat"

definition group_key :: "merged_row \<Rightarrow> key" where
  "group_key r = (Year r, DayOfYear r)"

text \<open>\<^verbatim>\<open>groupby(['Year','DayOfYear'])\<close>: one group per key, the keys sorted.\<close>

definition group_keys :: "merged_row list \<Rightarrow> key list" where
  "group_keys rows = sort (remdups (map group_key rows))"

definition group_rows :: "merged_row list \<Rightarrow> key \<Rightarrow> merged_row list" where
  "group_rows rows k = filter (\<lambda>r. group_key r = k) rows"

type_synonym daily = "(key \<times> real option) list"

text \<open>
  \<^verbatim>\<open>merged.groupby(['Year','DayOfYear'])['Usage'].sum().reset_index()\<close>, the tables
  \<^verbatim>\<open>daily_elec\<close> and \<^verbatim>\<open>daily_gas\<close>.
\<close>

definition daily_usage :: "merged_row list \<Rightarrow> daily" where
  "daily_usage rows =
     map (\<lambda>k. (k, Some (nansum (map Usage (group_rows rows k))))) (group_keys rows)"

text \<open>\<^verbatim>\<open>merged_elec.groupby(['Year','DayOfYear'])['Avg_Temp_C'].mean().reset_index()\<close>.\<close>

definition daily_temp :: "merged_row list \<Rightarrow> daily" where
  "daily_temp rows =
     map (\<lambda>k. (k, nanmean (map Avg_Temp_C (group_rows rows k)))) (group_keys rows)"

section \<open>Pivot, baseline and deviation\<close>

datatype error = ValueError string | AssertionError string

text \<open>
  A frame indexed by day of year with one column per year. A cell outside the labels, a
  cell no row of the table fills, and a cell filled with NaN are all NaN.
\<close>

record frame =
  index :: "nat list"
  columns :: "int list"
  cell :: "int \<Rightarrow> nat \<Rightarrow> real option"

definition pivot_frame :: "daily \<Rightarrow> frame" where
  "pivot_frame d =
     \<lparr>index = sort (remdups (map (\<lambda>kv. snd (fst kv)) d)),
      columns = sort (remdups (map (\<lambda>kv. fst (fst kv)) d)),
      cell = (\<lambda>y doy. case map_of d (y, doy) of None \<Rightarrow> None | Some v \<Rightarrow> v)\<rparr>"

text \<open>
  \<^verbatim>\<open>daily.pivot(index='DayOfYear', columns='Year', values=...)\<close> raises a
  \<^verbatim>\<open>ValueError\<close> when two rows have the same (DayOfYear, Year).
\<close>

definition pivot :: "daily \<Rightarrow> error + frame" where
  "pivot d =
     (if distinct (map fst d) then Inr (pivot_frame d)
      else Inl (ValueError ''Index contains duplicate entries, cannot reshape''))"

type_synonym series = "(nat \<times> real option) list"

definition series_at :: "series \<Rightarrow> nat \<Rightarrow> real option" where
  "series_at s doy = (case map_of s doy of None \<Rightarrow> None | Some v \<Rightarrow> v)"

text \<open>\<^verbatim>\<open>frame.mean(axis=1)\<close>: for each day of year, the mean over the year columns.\<close>

definition mean_axis1 :: "frame \<Rightarrow> series" where
  "mean_axis1 f =
     map (\<lambda>doy. (doy, nanmean (map (\<lambda>y. cell f y doy) (columns f)))) (index f)"

text \<open>
  \<^verbatim>\<open>frame.apply(lambda col: col - s)\<close>: each column minus the series, cell by cell on
  the day-of-year labels; the result is indexed by the labels of both.
\<close>

definition sub_series :: "frame \<Rightarrow> series \<Rightarrow> frame" where
  "sub_series f s =
     \<lparr>index = sort (remdups (index f @ map fst s)),
      columns = columns f,
      cell = (\<lambda>y doy. sub_cell (cell f y doy) (series_at s doy))\<rparr>"

definition deviation :: "frame \<Rightarrow> frame" where
  "deviation f = sub_series f (mean_axis1 f)"

section \<open>Anomaly rows\<close>

text \<open>
  \<^verbatim>\<open>frame.stack().reset_index()\<close>: one row (DayOfYear, Year, value) per cell that
  holds a number, the days of year in index order and the years in column order within a
  day.
\<close>

definition stack :: "frame \<Rightarrow> (nat \<times> int \<times> real) list" where
  "stack f =
     concat (map (\<lambda>doy.
        concat (map (\<lambda>y. case cell f y doy of None \<Rightarrow> [] | Some v \<Rightarrow> [(doy, y, v)])
                    (columns f)))
        (index f))"

text \<open>
  \<^verbatim>\<open>pd.merge(l, r, on=['DayOfYear','Year'], how='inner')\<close>: the left rows that have a
  match, in the left table's order, one output row per matching right row.
\<close>

definition merge_inner ::
  "(nat \<times> int \<times> real) list \<Rightarrow> (nat \<times> int \<times> real) list \<Rightarrow> (nat \<times> int \<times> real \<times> real) list" where
  "merge_inner l r =
     concat (map (\<lambda>(doy, y, g).
        map (\<lambda>(doy', y', t). (doy, y, g, t))
            (filter (\<lambda>(doy', y', t). doy' = doy \<and> y' = y) r)) l)"

record thresholds =
  HIGH_USAGE_THRESHOLD :: real
  LOW_TEMP_THRESHOLD :: real

definition script_thresholds :: thresholds where
  "script_thresholds = \<lparr>HIGH_USAGE_THRESHOLD = 2, LOW_TEMP_THRESHOLD = - 1\<rparr>"

text \<open>
  \<^verbatim>\<open>merged_dev_daily[(Gas_Dev > HIGH_USAGE_THRESHOLD) & (Temp_Dev > 0)]\<close>, rows as
  (DayOfYear, Year, Gas_Dev, Temp_Dev).
\<close>

definition high_usage_warm_days ::
  "thresholds \<Rightarrow> (nat \<times> int \<times> real \<times> real) list \<Rightarrow> (nat \<times> int \<times> real \<times> real) list" where
  "high_usage_warm_days th merged_dev_daily =
     filter (\<lambda>(doy, y, gas_dev, temp_dev). gas_dev > HIGH_USAGE_THRESHOLD th \<and> temp_dev > 0)
            merged_dev_daily"

section \<open>The run\<close>

text \<open>
  The script from the loaded tables to the flagged days. \<open>elec_df\<close> and \<open>gas_df\<close> are
  the two consumption tables after loading, \<open>temp_df\<close> is the table the temperature
  fetch leaves behind (no rows when the request fails or the arrays disagree).

  Before the fetch the script formats the earliest and latest date of the tables. With an
  empty electricity table that date is \<^verbatim>\<open>NaT\<close> (Python's \<^verbatim>\<open>min\<close> keeps its first
  argument when every comparison with it is false), and formatting \<^verbatim>\<open>NaT\<close> raises a
  \<^verbatim>\<open>ValueError\<close>. The checks for the column names cannot fail here: a row type has
  its columns.
\<close>

record results =
  correlation_elec :: real
  correlation_gas :: real
  mean_elec_per_day :: series
  mean_gas_per_day :: series
  dev_elec_daily :: frame
  dev_gas_daily :: frame
  std_temp_day :: series
  temp_dev_daily :: frame
  merged_dev_daily :: "(nat \<times> int \<times> real \<times> real) list"
  warm_days :: "(nat \<times> int \<times> real \<times> real) list"

definition report :: "thresholds \<Rightarrow> real \<Rightarrow> real \<Rightarrow> frame \<Rightarrow> frame \<Rightarrow> frame \<Rightarrow> results" where
  "report th c_elec c_gas daily_elec_pivot daily_gas_pivot daily_temp_pivot =
     (let merged = merge_inner (stack (deviation daily_gas_pivot))
                               (stack (deviation daily_temp_pivot))
      in \<lparr>correlation_elec = c_elec,
          correlation_gas = c_gas,
          mean_elec_per_day = mean_axis1 daily_elec_pivot,
          mean_gas_per_day = mean_axis1 daily_gas_pivot,
          dev_elec_daily = deviation daily_elec_pivot,
          dev_gas_daily = deviation daily_gas_pivot,
          std_temp_day = mean_axis1 daily_temp_pivot,
          temp_dev_daily = deviation daily_temp_pivot,
          merged_dev_daily = merged,
          warm_days = high_usage_warm_days th merged\<rparr>)"

definition run ::
  "thresholds \<Rightarrow> usage_row list \<Rightarrow> usage_row list \<Rightarrow> temp_row list \<Rightarrow> error + results" where
  "run th elec_df gas_df temp_df =
     (if elec_df = [] then Inl (ValueError ''NaTType does not support strftime'')
      else
        let merged_elec = merge_left elec_df temp_df;
            merged_gas = merge_left gas_df temp_df;
            c_elec = corr merged_elec;
            c_gas = corr merged_gas;
            daily_elec = daily_usage merged_elec;
            daily_gas = daily_usage merged_gas
        in
          if elec_df = [] then
            Inl (AssertionError ''Electricity DataFrame is empty. Check file contents.'')
          else if gas_df = [] then
            Inl (AssertionError ''Gas DataFrame is empty. Check file contents.'')
          else (case c_elec of
             None \<Rightarrow> Inl (AssertionError ''Electricity correlation is NaN'')
           | Some ce \<Rightarrow> (case c_gas of
             None \<Rightarrow> Inl (AssertionError ''Gas correlation is NaN'')
           | Some cg \<Rightarrow> (case pivot daily_elec of
             Inl e \<Rightarrow> Inl e
           | Inr daily_elec_pivot \<Rightarrow> (case pivot daily_gas of
             Inl e \<Rightarrow> Inl e
           | Inr daily_gas_pivot \<Rightarrow> (case pivot (daily_temp merged_elec) of
             Inl e \<Rightarrow> Inl e
           | Inr daily_temp_pivot \<Rightarrow>
               Inr (report th ce cg daily_elec_pivot daily_gas_pivot daily_temp_pivot)))))))"

text \<open>
  What alignment means for one consumption row when the temperature table has at most one
  row per date: the row keeps its date and usage and takes the temperature columns of the
  row of the same date, or NaN when there is none.
\<close>

definition align_row :: "temp_row list \<Rightarrow> usage_row \<Rightarrow> merged_row" where
  "align_row right l =
     (case find (\<lambda>t. t_Date t = Date l) right of
        None \<Rightarrow> no_temp l
      | Some t \<Rightarrow> with_temp l t)"

section \<open>Keys of the stacked rows\<close>

text \<open>The (DayOfYear, Year) key of a stacked row and of a merged row.\<close>

definition dev_key :: "nat \<times> int \<times> real \<Rightarrow> nat \<times> int" where
  "dev_key r = (case r of (doy, y, v) \<Rightarrow> (doy, y))"

definition row_key :: "nat \<times> int \<times> real \<times> real \<Rightarrow> nat \<times> int" where
  "row_key r = (case r of (doy, y, g, t) \<Rightarrow> (doy, y))"

section \<open>Example tables\<close>

text \<open>
  Three aligned rows: the last two days of the leap year 2020 and the last day of 2021,
  the latter without a temperature.
\<close>

definition example_rows :: "merged_row list" where
  "example_rows =
     [\<lparr>Date = \<lparr>year = 2020, month = 12, day = 31\<rparr>, Usage = Some 4,
       Min_Temp_C = Some 1, Max_Temp_C = Some 5, Avg_Temp_C = Some 3\<rparr>,
      \<lparr>Date = \<lparr>year = 2020, month = 12, day = 30\<rparr>, Usage = Some 6,
       Min_Temp_C = Some 0, Max_Temp_C = Some 4, Avg_Temp_C = Some 2\<rparr>,
      \<lparr>Date = \<lparr>year = 2021, month = 12, day = 31\<rparr>, Usage = Some 2,
       Min_Temp_C = None, Max_Temp_C = None, Avg_Temp_C = None\<rparr>]"

text \<open>
  The (Year, DayOfYear) key of a merged row, for the order that puts the year first.
\<close>

definition year_key :: "nat \<times> int \<times> real \<times> real \<Rightarrow> int \<times> nat" where
  "year_key r = (case r of (doy, y, g, t) \<Rightarrow> (y, doy))"

text \<open>
  Loaded tables of two days: two electricity readings on the first day and one on the
  second, one gas reading and one temperature row per day.
\<close>

definition example_elec_df :: "usage_row list" where
  "example_elec_df =
     [\<lparr>Date = \<lparr>year = 2024, month = 1, day = 1\<rparr>, Usage = Some 5\<rparr>,
      \<lparr>Date = \<lparr>year = 2024, month = 1, day = 1\<rparr>, Usage = Some 3\<rparr>,
      \<lparr>Date = \<lparr>year = 2024, month = 1, day = 2\<rparr>, Usage = Some 7\<rparr>]"

definition example_gas_df :: "usage_row list" where
  "example_gas_df =
     [\<lparr>Date = \<lparr>year = 2024, month = 1, day = 1\<rparr>, Usage = Some 4\<rparr>,
      \<lparr>Date = \<lparr>year = 2024, month = 1, day = 2\<rparr>, Usage = Some 2\<rparr>]"

definition example_temp_df :: "temp_row list" where
  "example_temp_df =
     [\<lparr>t_Date = \<lparr>year = 2024, month = 1, day = 1\<rparr>, t_Min_Temp_C = Some 2,
       t_Max_Temp_C = Some 10, t_Avg_Temp_C = Some 6\<rparr>,
      \<lparr>t_Date = \<lparr>year = 2024, month = 1, day = 2\<rparr>, t_Min_Temp_C = Some 5,
       t_Max_Temp_C = Some 13, t_Avg_Temp_C = Some 9\<rparr>]"

text \<open>
  Daily gas usage and daily temperature of two days of the year in two years.
\<close>

definition example_gas :: daily where
  "example_gas = [((2023, 5), Some 0), ((2023, 10), Some 10),
                  ((2024, 5), Some 10), ((2024, 10), Some 0)]"

definition example_temp :: daily where
  "example_temp = [((2023, 5), Some 8), ((2023, 10), Some 14),
                   ((2024, 5), Some 12), ((2024, 10), Some 11)]"

text \<open>
  Deviation frames with the single cell (2024, 10): a gas deviation of 3, a gas deviation
  of 1 and a temperature deviation of 1.5.
\<close>

definition example_dev_a :: frame where
  "example_dev_a = \<lparr>index = [10], columns = [2024],
       cell = (\<lambda>y doy. if y = 2024 \<and> doy = 10 then Some 3 else None)\<rparr>"

definition example_dev_low :: frame where
  "example_dev_low = \<lparr>index = [10], columns = [2024],
       cell = (\<lambda>y doy. if y = 2024 \<and> doy = 10 then Some 1 else None)\<rparr>"

definition example_dev_b :: frame where
  "example_dev_b = \<lparr>index = [10], columns = [2024],
       cell = (\<lambda>y doy. if y = 2024 \<and> doy = 10 then Some (3 / 2) else None)\<rparr>"

section \<open>Properties of the alignment\<close>

lemma filter_key_find:
  "distinct (map f xs) \<Longrightarrow>
   filter (\<lambda>t. f t = d) xs = (case find (\<lambda>t. f t = d) xs of None \<Rightarrow> [] | Some t \<Rightarrow> [t])"
proof (induction xs)
  case Nil
  then show ?case by simp
next
  case (Cons x xs)
  show ?case
  proof (cases "f x = d")
    case True
    with Cons.prems have "\<forall>t\<in>set xs. f t \<noteq> d" by (auto simp: image_iff)
    then have "filter (\<lambda>t. f t = d) xs = []" by (simp add: filter_empty_conv)
    with True show ?thesis by simp
  next
    case False
    with Cons show ?thesis by simp
  qed
qed


text \<open>
  C7, as the claim states it, fails: a consumption row appears once for every temperature
  row of its date, so a temperature table with two rows of one date gives two output rows
  for one consumption row.
\<close>

theorem merge_left_duplicate_temperature_date:
  "merge_left
     [\<lparr>Date = \<lparr>year = 2024, month = 1, day = 1\<rparr>, Usage = Some 10\<rparr>]
     [\<lparr>t_Date = \<lparr>year = 2024, month = 1, day = 1\<rparr>, t_Min_Temp_C = Some 1,
       t_Max_Temp_C = Some 9, t_Avg_Temp_C = Some 5\<rparr>,
      \<lparr>t_Date = \<lparr>year = 2024, month = 1, day = 1\<rparr>, t_Min_Temp_C = Some 2,
       t_Max_Temp_C = Some 8, t_Avg_Temp_C = Some 7\<rparr>]
   = [\<lparr>Date = \<lparr>year = 2024, month = 1, day = 1\<rparr>, Usage = Some 10,
       Min_Temp_C = Some 1, Max_Temp_C = Some 9, Avg_Temp_C = Some 5\<rparr>,
      \<lparr>Date = \<lparr>year = 2024, month = 1, day = 1\<rparr>, Usage = Some 10,
       Min_Temp_C = Some 2, Max_Temp_C = Some 8, Avg_Temp_C = Some 7\<rparr>]"
  by (simp add: merge_left_def with_temp_def)

text \<open>
  C7, amended: when the temperature table has at most one row per date, the aligned table
  has exactly one row per consumption row, in the same order; a row whose date is in the
  temperature table carries the temperature columns of that row, and a row whose date is
  not there carries NaN in all three.
\<close>

theorem merge_left_keyed:
  assumes "distinct (map t_Date right)"
  shows "merge_left left right = map (align_row right) left"
proof -
  have "(case filter (\<lambda>t. t_Date t = Date l) right of
           [] \<Rightarrow> [no_temp l] | ms \<Rightarrow> map (with_temp l) ms) = [align_row right l]" for l
    using filter_key_find [OF assms, of "Date l"]
    by (simp add: align_row_def split: option.splits)
  then show ?thesis
    by (simp add: merge_left_def)
qed

theorem merge_left_keyed_witness:
  "distinct (map t_Date
     [\<lparr>t_Date = \<lparr>year = 2024, month = 1, day = 1\<rparr>, t_Min_Temp_C = Some 1,
       t_Max_Temp_C = Some 9, t_Avg_Temp_C = Some 5\<rparr>]) \<and>
   merge_left
     [\<lparr>Date = \<lparr>year = 2024, month = 1, day = 1\<rparr>, Usage = Some 10\<rparr>,
      \<lparr>Date = \<lparr>year = 2024, month = 1, day = 2\<rparr>, Usage = Some 12\<rparr>]
     [\<lparr>t_Date = \<lparr>year = 2024, month = 1, day = 1\<rparr>, t_Min_Temp_C = Some 1,
       t_Max_Temp_C = Some 9, t_Avg_Temp_C = Some 5\<rparr>]
   = [\<lparr>Date = \<lparr>year = 2024, month = 1, day = 1\<rparr>, Usage = Some 10,
       Min_Temp_C = Some 1, Max_Temp_C = Some 9, Avg_Temp_C = Some 5\<rparr>,
      \<lparr>Date = \<lparr>year = 2024, month = 1, day = 2\<rparr>, Usage = Some 12,
       Min_Temp_C = None, Max_Temp_C = None, Avg_Temp_C = None\<rparr>]"
  using merge_left_keyed
    [of "[\<lparr>t_Date = \<lparr>year = 2024, month = 1, day = 1\<rparr>, t_Min_Temp_C = Some 1,
           t_Max_Temp_C = Some 9, t_Avg_Temp_C = Some 5\<rparr>]"
        "[\<lparr>Date = \<lparr>year = 2024, month = 1, day = 1\<rparr>, Usage = Some 10\<rparr>,
          \<lparr>Date = \<lparr>year = 2024, month = 1, day = 2\<rparr>, Usage = Some 12\<rparr>]"]
  by (simp add: align_row_def no_temp_def with_temp_def)

section \<open>Properties of the run\<close>




text \<open>
  C9: a run on an empty electricity table or an empty gas table ends in an error, and so
  returns no result (no baseline among others). An empty electricity table already fails
  where the date range is formatted; an empty gas table fails the assertion that the table
  is not empty.
\<close>

theorem run_empty_consumption:
  assumes "elec_df = [] \<or> gas_df = []"
  shows "run th elec_df gas_df temp_df =
     Inl (if elec_df = [] then ValueError ''NaTType does not support strftime''
          else AssertionError ''Gas DataFrame is empty. Check file contents.'')"
  using assms by (auto simp add: run_def Let_def)

theorem run_empty_consumption_witness:
  "([\<lparr>Date = \<lparr>year = 2024, month = 1, day = 1\<rparr>, Usage = Some 10\<rparr>] = [] \<or>
    ([] :: usage_row list) = []) \<and>
   run script_thresholds
     [\<lparr>Date = \<lparr>year = 2024, month = 1, day = 1\<rparr>, Usage = Some 10\<rparr>] []
     [\<lparr>t_Date = \<lparr>year = 2024, month = 1, day = 1\<rparr>, t_Min_Temp_C = Some 1,
       t_Max_Temp_C = Some 9, t_Avg_Temp_C = Some 5\<rparr>]
   = Inl (AssertionError ''Gas DataFrame is empty. Check file contents.'')"
  using run_empty_consumption
    [of "[\<lparr>Date = \<lparr>year = 2024, month = 1, day = 1\<rparr>, Usage = Some 10\<rparr>]" "[]"
        script_thresholds
        "[\<lparr>t_Date = \<lparr>year = 2024, month = 1, day = 1\<rparr>, t_Min_Temp_C = Some 1,
           t_Max_Temp_C = Some 9, t_Avg_Temp_C = Some 5\<rparr>]"]
  by simp




section \<open>Day of year\<close>

lemma upt_month: "m \<le> 12 \<Longrightarrow> 1 \<le> m \<Longrightarrow> m \<in> {1,2,3,4,5,6,7,8,9,10,11,12::nat}"
  by (simp only: insert_iff empty_iff) arith

lemma dayofyear_bounds:
  assumes "valid_date ts"
  shows "1 \<le> dayofyear ts \<and> dayofyear ts \<le> (if is_leap_year (year ts) then 366 else 365)"
proof -
  from assms have m: "month ts \<in> {1,2,3,4,5,6,7,8,9,10,11,12::nat}"
    using upt_month [of "month ts"] by (simp add: valid_date_def)
  from assms have d: "1 \<le> day ts" "day ts \<le> days_in_month (year ts) (month ts)"
    by (simp_all add: valid_date_def)
  from m d show ?thesis
    by (auto simp: dayofyear_def days_in_month_def upt_rec[of _ "numeral _"] upt_rec[of _ "Suc _"])
qed

lemma dayofyear_366: "valid_date ts \<Longrightarrow> dayofyear ts = 366 \<Longrightarrow> is_leap_year (year ts)"
  using dayofyear_bounds [of ts] by (auto split: if_splits)


section \<open>Lemmas on missing values, grouping and pivoting\<close>

lemma map_of_map_key:
  "map_of (map (\<lambda>k. (k, g k)) ks) k = (if k \<in> set ks then Some (g k) else None)"
  by (induction ks) auto

lemma series_at_mean_axis1:
  "series_at (mean_axis1 f) doy =
     (if doy \<in> set (index f) then nanmean (map (\<lambda>y. cell f y doy) (columns f)) else None)"
  by (simp add: series_at_def mean_axis1_def map_of_map_key)

lemma sum_list_present:
  "distinct ys \<Longrightarrow>
   sum_list (present (map g ys)) = (\<Sum>y\<in>{y \<in> set ys. g y \<noteq> None}. the (g y))"
proof (induction ys)
  case Nil
  then show ?case by (simp add: present_def)
next
  case (Cons a ys)
  have fin: "finite {y \<in> set ys. g y \<noteq> None}" by simp
  have notin: "a \<notin> {y \<in> set ys. g y \<noteq> None}" using Cons.prems by simp
  have split: "{y \<in> set (a # ys). g y \<noteq> None} =
        (if g a = None then {y \<in> set ys. g y \<noteq> None} else insert a {y \<in> set ys. g y \<noteq> None})"
    by auto
  have IH: "sum_list (present (map g ys)) = (\<Sum>y\<in>{y \<in> set ys. g y \<noteq> None}. the (g y))"
    using Cons by simp
  show ?case
  proof (cases "g a")
    case None
    then show ?thesis using IH split by (simp add: present_def)
  next
    case (Some v)
    then have "sum_list (present (map g (a # ys))) = v + sum_list (present (map g ys))"
      by (simp add: present_def)
    also have "\<dots> = the (g a) + (\<Sum>y\<in>{y \<in> set ys. g y \<noteq> None}. the (g y))"
      using IH Some by simp
    also have "\<dots> = (\<Sum>y\<in>insert a {y \<in> set ys. g y \<noteq> None}. the (g y))"
      using fin notin by simp
    finally show ?thesis using split Some by simp
  qed
qed

lemma length_present:
  "distinct ys \<Longrightarrow> length (present (map g ys)) = card {y \<in> set ys. g y \<noteq> None}"
proof (induction ys)
  case Nil
  then show ?case by (simp add: present_def)
next
  case (Cons a ys)
  have fin: "finite {y \<in> set ys. g y \<noteq> None}" by simp
  have notin: "a \<notin> {y \<in> set ys. g y \<noteq> None}" using Cons.prems by simp
  have split: "{y \<in> set (a # ys). g y \<noteq> None} =
        (if g a = None then {y \<in> set ys. g y \<noteq> None} else insert a {y \<in> set ys. g y \<noteq> None})"
    by auto
  have IH: "length (present (map g ys)) = card {y \<in> set ys. g y \<noteq> None}"
    using Cons by simp
  show ?case
  proof (cases "g a")
    case None
    then show ?thesis using IH split by (simp add: present_def)
  next
    case (Some v)
    then have "length (present (map g (a # ys))) = Suc (length (present (map g ys)))"
      by (simp add: present_def)
    then show ?thesis using IH split Some fin notin by simp
  qed
qed

lemma nanmean_set:
  assumes "distinct ys"
  shows "nanmean (map g ys) =
     (if {y \<in> set ys. g y \<noteq> None} = {} then None
      else Some ((\<Sum>y\<in>{y \<in> set ys. g y \<noteq> None}. the (g y)) / real (card {y \<in> set ys. g y \<noteq> None})))"
proof -
  have "present (map g ys) = [] \<longleftrightarrow> length (present (map g ys)) = 0" by simp
  also have "\<dots> \<longleftrightarrow> {y \<in> set ys. g y \<noteq> None} = {}"
    using length_present [OF assms, of g] by simp
  finally show ?thesis
    using sum_list_present [OF assms, of g] length_present [OF assms, of g]
    by (simp add: nanmean_def Let_def)
qed

lemma pivot_frame_labels:
  "distinct (index (pivot_frame d))" "sorted (index (pivot_frame d))"
  "distinct (columns (pivot_frame d))" "sorted (columns (pivot_frame d))"
  by (simp_all add: pivot_frame_def)

lemma pivot_frame_cell:
  assumes "cell (pivot_frame d) y doy = Some v"
  shows "doy \<in> set (index (pivot_frame d)) \<and> y \<in> set (columns (pivot_frame d)) \<and> ((y, doy), Some v) \<in> set d"
proof -
  from assms have "map_of d (y, doy) = Some (Some v)"
    by (simp add: pivot_frame_def split: option.splits)
  then have "((y, doy), Some v) \<in> set d" by (rule map_of_SomeD)
  then show ?thesis by (force simp: pivot_frame_def)
qed

lemma baseline_pivot:
  fixes d :: daily
  defines "f \<equiv> pivot_frame d"
  shows "series_at (mean_axis1 f) doy =
     (if {y \<in> set (columns f). cell f y doy \<noteq> None} = {} then None
      else Some ((\<Sum>y\<in>{y \<in> set (columns f). cell f y doy \<noteq> None}. the (cell f y doy)) /
                 real (card {y \<in> set (columns f). cell f y doy \<noteq> None})))"
proof (cases "doy \<in> set (index f)")
  case True
  then show ?thesis
    using nanmean_set [of "columns f" "\<lambda>y. cell f y doy"] pivot_frame_labels(3) [of d]
    by (simp add: series_at_mean_axis1 f_def)
next
  case False
  then have "cell f y doy = None" for y
    using pivot_frame_cell [of d y doy] by (cases "cell f y doy") (auto simp: f_def)
  then show ?thesis using False by (simp add: series_at_mean_axis1)
qed

lemma group_keys_props:
  "set (group_keys rows) = group_key ` set rows" "distinct (group_keys rows)" "sorted (group_keys rows)"
  by (simp_all add: group_keys_def)

lemma daily_usage_keys: "map fst (daily_usage rows) = group_keys rows"
  by (simp add: daily_usage_def comp_def)

lemma daily_temp_keys: "map fst (daily_temp rows) = group_keys rows"
  by (simp add: daily_temp_def comp_def)

lemma pivot_daily_usage: "pivot (daily_usage rows) = Inr (pivot_frame (daily_usage rows))"
  by (simp add: pivot_def daily_usage_keys group_keys_props)

lemma pivot_daily_temp: "pivot (daily_temp rows) = Inr (pivot_frame (daily_temp rows))"
  by (simp add: pivot_def daily_temp_keys group_keys_props)

lemma cell_daily_usage:
  "cell (pivot_frame (daily_usage rows)) y doy =
     (if (y, doy) \<in> group_key ` set rows
      then Some (nansum (map Usage (group_rows rows (y, doy)))) else None)"
  by (simp add: pivot_frame_def daily_usage_def map_of_map_key group_keys_props)

lemma cell_daily_temp:
  "cell (pivot_frame (daily_temp rows)) y doy =
     (if (y, doy) \<in> group_key ` set rows
      then nanmean (map Avg_Temp_C (group_rows rows (y, doy))) else None)"
  by (simp add: pivot_frame_def daily_temp_def map_of_map_key group_keys_props)

lemma key_366_leap:
  assumes "\<forall>r\<in>set rows. valid_date (Date r)" and "(y, 366) \<in> group_key ` set rows"
  shows "is_leap_year y"
proof -
  from assms(2) obtain r where r: "r \<in> set rows" "year (Date r) = y" "dayofyear (Date r) = 366"
    by (auto simp: group_key_def Year_def DayOfYear_def)
  with assms(1) have "valid_date (Date r)" by blast
  with r show ?thesis using dayofyear_366 [of "Date r"] by simp
qed


section \<open>Lemmas on stacking and joining\<close>

lemma set_stack:
  "(doy, y, v) \<in> set (stack f) \<longleftrightarrow>
     doy \<in> set (index f) \<and> y \<in> set (columns f) \<and> cell f y doy = Some v"
  by (auto simp: stack_def split: option.splits)

lemma set_match_block:
  "(doy, y, g, t) \<in> set (map (\<lambda>(doy', y'', t). (d', y', g', t))
        (filter (\<lambda>(doy', y'', t). doy' = d' \<and> y'' = y') r))
   \<longleftrightarrow> doy = d' \<and> y = y' \<and> g = g' \<and> (d', y', t) \<in> set r"
  by (induction r) auto

lemma set_merge_inner:
  "(doy, y, g, t) \<in> set (merge_inner l r) \<longleftrightarrow> (doy, y, g) \<in> set l \<and> (doy, y, t) \<in> set r"
proof (induction l)
  case Nil
  then show ?case by (simp add: merge_inner_def)
next
  case (Cons a l)
  obtain d' y' g' where a: "a = (d', y', g')" by (cases a) auto
  have "merge_inner (a # l) r =
     map (\<lambda>(doy', y'', t). (d', y', g', t)) (filter (\<lambda>(doy', y'', t). doy' = d' \<and> y'' = y') r)
     @ merge_inner l r"
    by (simp add: merge_inner_def a)
  then have "(doy, y, g, t) \<in> set (merge_inner (a # l) r) \<longleftrightarrow>
      (doy = d' \<and> y = y' \<and> g = g' \<and> (d', y', t) \<in> set r) \<or> (doy, y, g, t) \<in> set (merge_inner l r)"
    using set_match_block [of doy y g t d' y' g' r] by (simp del: set_map set_filter)
  then show ?case using Cons by (auto simp: a)
qed

lemma set_warm_days:
  "(doy, y, g, t) \<in> set (high_usage_warm_days th m) \<longleftrightarrow>
     (doy, y, g, t) \<in> set m \<and> g > HIGH_USAGE_THRESHOLD th \<and> t > 0"
  by (auto simp: high_usage_warm_days_def)

lemma stack_row_keys:
  "map dev_key (concat (map (\<lambda>y. case c y of None \<Rightarrow> [] | Some v \<Rightarrow> [(doy, y, v)]) ys))
   = map (Pair doy) (filter (\<lambda>y. c y \<noteq> None) ys)"
  by (induction ys) (auto simp: dev_key_def split: option.splits)

lemma stack_keys:
  "map dev_key (stack f) =
     concat (map (\<lambda>doy. map (Pair doy) (filter (\<lambda>y. cell f y doy \<noteq> None) (columns f))) (index f))"
proof -
  have "map dev_key (concat (map (\<lambda>doy.
          concat (map (\<lambda>y. case cell f y doy of None \<Rightarrow> [] | Some v \<Rightarrow> [(doy, y, v)]) (columns f))) xs))
      = concat (map (\<lambda>doy. map (Pair doy) (filter (\<lambda>y. cell f y doy \<noteq> None) (columns f))) xs)" for xs
  proof (induction xs)
    case Nil
    then show ?case by simp
  next
    case (Cons x xs)
    then show ?case
      using stack_row_keys [where c = "\<lambda>y. cell f y x" and doy = x and ys = "columns f"] by simp
  qed
  then show ?thesis by (simp add: stack_def)
qed

lemma strict_sorted_pairs:
  fixes ys :: "int list"
  shows "sorted_wrt (<) ys \<Longrightarrow> sorted_wrt (<) (map (Pair (doy::nat)) ys)"
  by (induction ys) (auto simp: less_prod_def)

lemma strict_sorted_blocks:
  fixes xs :: "nat list" and ys :: "int list"
  assumes "sorted_wrt (<) xs" "sorted_wrt (<) ys"
  shows "sorted_wrt (<) (concat (map (\<lambda>doy. map (Pair doy) (filter (P doy) ys)) xs))"
  using assms(1)
proof (induction xs)
  case Nil
  then show ?case by simp
next
  case (Cons x xs)
  have a: "sorted_wrt (<) (map (Pair x) (filter (P x) ys))"
    using assms(2) by (intro strict_sorted_pairs) (simp add: sorted_wrt_filter)
  have b: "sorted_wrt (<) (concat (map (\<lambda>doy. map (Pair doy) (filter (P doy) ys)) xs))"
    using Cons by simp
  have c: "\<forall>p\<in>set (map (Pair x) (filter (P x) ys)).
           \<forall>q\<in>set (concat (map (\<lambda>doy. map (Pair doy) (filter (P doy) ys)) xs)). p < q"
    using Cons.prems by (auto simp: less_prod_def)
  show ?case using a b c by (simp add: sorted_wrt_append)
qed

lemma stack_strict_sorted:
  "sorted_wrt (<) (index f) \<Longrightarrow> sorted_wrt (<) (columns f) \<Longrightarrow> sorted_wrt (<) (map dev_key (stack f))"
  by (simp add: stack_keys strict_sorted_blocks)

lemma merge_inner_keys:
  assumes "distinct (map dev_key r)"
  shows "map row_key (merge_inner l r) = filter (\<lambda>k. k \<in> set (map dev_key r)) (map dev_key l)"
proof (induction l)
  case Nil
  then show ?case by (simp add: merge_inner_def)
next
  case (Cons a l)
  obtain doy y g where a: "a = (doy, y, g)" by (cases a) auto
  have eq: "(\<lambda>(doy', y', t). doy' = doy \<and> y' = y) = (\<lambda>t. dev_key t = (doy, y))"
    by (auto simp: dev_key_def fun_eq_iff)
  have one: "map row_key (map (\<lambda>(doy', y', t). (doy, y, g, t)) (filter (\<lambda>t. dev_key t = (doy, y)) r))
        = (if (doy, y) \<in> set (map dev_key r) then [(doy, y)] else [])"
  proof -
    have f: "filter (\<lambda>t. dev_key t = (doy, y)) r =
        (case find (\<lambda>t. dev_key t = (doy, y)) r of None \<Rightarrow> [] | Some t \<Rightarrow> [t])"
      using filter_key_find [OF assms] .
    show ?thesis
    proof (cases "find (\<lambda>t. dev_key t = (doy, y)) r")
      case None
      then have "\<forall>t\<in>set r. dev_key t \<noteq> (doy, y)" by (auto simp: find_None_iff)
      then have "(doy, y) \<notin> set (map dev_key r)" by (auto simp: image_iff)
      with None f show ?thesis by simp
    next
      case (Some t)
      then have "t \<in> set r" "dev_key t = (doy, y)" by (auto simp: find_Some_iff)
      then have "(doy, y) \<in> set (map dev_key r)" by force
      with Some f show ?thesis by (simp add: row_key_def split: prod.splits)
    qed
  qed
  have "merge_inner (a # l) r =
     map (\<lambda>(doy', y', t). (doy, y, g, t)) (filter (\<lambda>t. dev_key t = (doy, y)) r) @ merge_inner l r"
    unfolding eq [symmetric] by (simp add: merge_inner_def a)
  then have "map row_key (merge_inner (a # l) r) =
     (if (doy, y) \<in> set (map dev_key r) then [(doy, y)] else []) @ map row_key (merge_inner l r)"
    using one by simp
  also have "dev_key a = (doy, y)" by (simp add: a dev_key_def)
  ultimately show ?case using Cons by simp
qed

lemma warm_days_keys:
  "\<exists>P. map row_key (high_usage_warm_days th m) = map row_key (filter P m)"
  by (auto simp: high_usage_warm_days_def)

lemma strict_sorted_filter_map:
  "sorted_wrt (<) (map k m) \<Longrightarrow> sorted_wrt (<) (map k (filter P m))"
  by (induction m) auto

lemma warm_days_strict_sorted:
  assumes "sorted_wrt (<) (map dev_key l)" "distinct (map dev_key r)"
  shows "sorted_wrt (<) (map row_key (high_usage_warm_days th (merge_inner l r)))"
proof -
  have "sorted_wrt (<) (map row_key (merge_inner l r))"
    using assms by (simp add: merge_inner_keys sorted_wrt_filter)
  then show ?thesis
    unfolding high_usage_warm_days_def by (rule strict_sorted_filter_map)
qed

section \<open>The baseline\<close>

text \<open>
  C1: the baseline of a day of year is the arithmetic mean of the cells of that day over
  exactly the years whose cell holds a number, and there is no baseline when no year has
  one. Every year with a number in its cell is a column of the matrix, and a year with a
  number at day 366 is a leap year, so the baseline of day 366 is a mean over leap years
  only. This holds for the usage matrix and for the temperature matrix.
\<close>

theorem baseline_is_mean_over_populated_years:
  assumes valid: "\<forall>r\<in>set rows. valid_date (Date r)"
    and f: "pivot (daily_usage rows) = Inr f \<or> pivot (daily_temp rows) = Inr f"
  shows "series_at (mean_axis1 f) doy =
           (if {y \<in> set (columns f). cell f y doy \<noteq> None} = {} then None
            else Some ((\<Sum>y\<in>{y \<in> set (columns f). cell f y doy \<noteq> None}. the (cell f y doy)) /
                       real (card {y \<in> set (columns f). cell f y doy \<noteq> None}))) \<and>
         (\<forall>y. cell f y doy \<noteq> None \<longrightarrow> y \<in> set (columns f)) \<and>
         (\<forall>y. cell f y 366 \<noteq> None \<longrightarrow> is_leap_year y)"
proof -
  from f obtain d where d: "f = pivot_frame d" "d = daily_usage rows \<or> d = daily_temp rows"
    by (auto simp: pivot_daily_usage pivot_daily_temp)
  have mean: "series_at (mean_axis1 f) doy =
           (if {y \<in> set (columns f). cell f y doy \<noteq> None} = {} then None
            else Some ((\<Sum>y\<in>{y \<in> set (columns f). cell f y doy \<noteq> None}. the (cell f y doy)) /
                       real (card {y \<in> set (columns f). cell f y doy \<noteq> None})))"
    unfolding d(1) by (rule baseline_pivot)
  have cols: "y \<in> set (columns f)" if "cell f y doy \<noteq> None" for y
    using that pivot_frame_cell [of d y doy] by (auto simp: d(1))
  have leap: "is_leap_year y" if "cell f y 366 \<noteq> None" for y
  proof -
    from that d have "(y, 366) \<in> group_key ` set rows"
      by (auto simp: cell_daily_usage cell_daily_temp split: if_splits)
    with valid show ?thesis by (rule key_366_leap)
  qed
  from mean cols leap show ?thesis by blast
qed

theorem baseline_is_mean_over_populated_years_witness:
  "list_all (\<lambda>r. valid_date (Date r)) example_rows \<and>
   pivot (daily_usage example_rows) = Inr (pivot_frame (daily_usage example_rows)) \<and>
   series_at (mean_axis1 (pivot_frame (daily_usage example_rows))) 365 = Some 4 \<and>
   series_at (mean_axis1 (pivot_frame (daily_usage example_rows))) 366 = Some 4 \<and>
   series_at (mean_axis1 (pivot_frame (daily_usage example_rows))) 1 = None"
proof -
  let ?f = "pivot_frame (daily_usage example_rows)"
  have v: "list_all (\<lambda>r. valid_date (Date r)) example_rows" by code_simp
  then have v': "\<forall>r\<in>set example_rows. valid_date (Date r)" by (simp add: list_all_iff)
  have p: "pivot (daily_usage example_rows) = Inr ?f" by (rule pivot_daily_usage)
  then have p': "pivot (daily_usage example_rows) = Inr ?f \<or> pivot (daily_temp example_rows) = Inr ?f"
    by simp
  note t = baseline_is_mean_over_populated_years [OF v' p']
  have y365: "{y \<in> set (columns ?f). cell ?f y 365 \<noteq> None} = {2020, 2021}" by code_simp
  have y366: "{y \<in> set (columns ?f). cell ?f y 366 \<noteq> None} = {2020}" by code_simp
  have y1: "{y \<in> set (columns ?f). cell ?f y 1 \<noteq> None} = {}" by code_simp
  have c: "cell ?f 2020 365 = Some 6" "cell ?f 2021 365 = Some 2" "cell ?f 2020 366 = Some 4"
    by code_simp+
  have "series_at (mean_axis1 ?f) 365 = Some 4"
    using conjunct1 [OF t [of 365], unfolded y365] by (simp add: c)
  moreover have "series_at (mean_axis1 ?f) 366 = Some 4"
    using conjunct1 [OF t [of 366], unfolded y366] by (simp add: c)
  moreover have "series_at (mean_axis1 ?f) 1 = None"
    using conjunct1 [OF t [of 1], unfolded y1] by simp
  ultimately show ?thesis using v p by simp
qed

section \<open>The deviation\<close>

lemma sort_remdups_twice:
  fixes xs :: "nat list"
  assumes "sorted xs" "distinct xs"
  shows "sort (remdups (xs @ xs)) = xs"
proof (rule sorted_distinct_set_unique)
  show "sorted (sort (remdups (xs @ xs)))" by simp
  show "distinct (sort (remdups (xs @ xs)))" by simp
  show "sorted xs" by (rule assms)
  show "distinct xs" by (rule assms)
  show "set (sort (remdups (xs @ xs))) = set xs" by simp
qed

lemma mean_axis1_labels: "map fst (mean_axis1 f) = index f"
  by (simp add: mean_axis1_def comp_def)

lemma deviation_labels:
  "index (deviation (pivot_frame d)) = index (pivot_frame d)"
  "columns (deviation f) = columns f"
  by (simp_all add: deviation_def sub_series_def mean_axis1_labels sort_remdups_twice pivot_frame_labels)

lemma deviation_cell:
  "cell (deviation f) y doy = sub_cell (cell f y doy) (series_at (mean_axis1 f) doy)"
  by (simp add: deviation_def sub_series_def)

lemma pivot_Inr: "pivot d = Inr f \<Longrightarrow> f = pivot_frame d"
  by (simp add: pivot_def split: if_splits)

text \<open>
  C2: the deviation matrix has the labels of the day-of-year matrix, and each of its cells
  is the raw cell minus the baseline of that day of year: a cell with a number equals raw
  value minus baseline (so also within the tolerance 1e-9), and a cell whose raw value or
  whose baseline is absent is absent, not zero.
\<close>

theorem deviation_is_value_minus_baseline:
  assumes "pivot d = Inr f"
  shows "index (deviation f) = index f \<and> columns (deviation f) = columns f \<and>
         cell (deviation f) y doy =
           (case cell f y doy of
              None \<Rightarrow> None
            | Some r \<Rightarrow> (case series_at (mean_axis1 f) doy of
                           None \<Rightarrow> None
                         | Some b \<Rightarrow> Some (r - b))) \<and>
         (\<forall>v. cell (deviation f) y doy = Some v \<longrightarrow>
            (\<exists>r b. cell f y doy = Some r \<and> series_at (mean_axis1 f) doy = Some b \<and>
                   \<bar>v - (r - b)\<bar> \<le> 1 / 10 ^ 9)) \<and>
         (cell f y doy = None \<or> series_at (mean_axis1 f) doy = None \<longrightarrow>
            cell (deviation f) y doy = None)"
proof -
  from assms have f: "f = pivot_frame d"
    by (simp add: pivot_def split: if_splits)
  show ?thesis
    unfolding f by (auto simp: deviation_labels deviation_cell sub_cell_def split: option.splits)
qed

theorem deviation_is_value_minus_baseline_witness:
  "pivot (daily_usage example_rows) = Inr (pivot_frame (daily_usage example_rows)) \<and>
   cell (deviation (pivot_frame (daily_usage example_rows))) 2020 365 = Some 2 \<and>
   cell (deviation (pivot_frame (daily_usage example_rows))) 2021 365 = Some (- 2) \<and>
   cell (deviation (pivot_frame (daily_usage example_rows))) 2020 366 = Some 0 \<and>
   cell (deviation (pivot_frame (daily_usage example_rows))) 2021 366 = None"
proof -
  let ?f = "pivot_frame (daily_usage example_rows)"
  have p: "pivot (daily_usage example_rows) = Inr ?f" by (rule pivot_daily_usage)
  note t = deviation_is_value_minus_baseline [OF p]
  have c: "cell ?f 2020 365 = Some 6" "cell ?f 2021 365 = Some 2" "cell ?f 2020 366 = Some 4"
    "cell ?f 2021 366 = None"
    by code_simp+
  have b: "series_at (mean_axis1 ?f) 365 = Some 4" "series_at (mean_axis1 ?f) 366 = Some 4"
    by code_simp+
  have "cell (deviation ?f) 2020 365 = Some 2" using t [of 2020 365] by (simp add: c b)
  moreover have "cell (deviation ?f) 2021 365 = Some (- 2)" using t [of 2021 365] by (simp add: c b)
  moreover have "cell (deviation ?f) 2020 366 = Some 0" using t [of 2020 366] by (simp add: c b)
  moreover have "cell (deviation ?f) 2021 366 = None" using t [of 2021 366] by (simp add: c b)
  ultimately show ?thesis using p by simp
qed

section \<open>The anomaly rows\<close>

text \<open>
  C3: a row (DayOfYear, Year, Gas_Dev, Temp_Dev) is among the flagged rows exactly when
  both deviation matrices have a number at that day and year, the gas deviation is above
  \<open>HIGH_USAGE_THRESHOLD\<close> and the temperature deviation is above 0; when no day and
  year meets all of this the result is the empty table.
\<close>

theorem anomaly_row_iff:
  "((doy, y, g, t) \<in> set (high_usage_warm_days th (merge_inner (stack dev_gas) (stack temp_dev)))
      \<longleftrightarrow>
        (doy \<in> set (index dev_gas) \<and> y \<in> set (columns dev_gas) \<and> cell dev_gas y doy = Some g) \<and>
        (doy \<in> set (index temp_dev) \<and> y \<in> set (columns temp_dev) \<and> cell temp_dev y doy = Some t) \<and>
        g > HIGH_USAGE_THRESHOLD th \<and> t > 0) \<and>
   (high_usage_warm_days th (merge_inner (stack dev_gas) (stack temp_dev)) = []
      \<longleftrightarrow>
        \<not> (\<exists>doy y g t.
             (doy \<in> set (index dev_gas) \<and> y \<in> set (columns dev_gas) \<and> cell dev_gas y doy = Some g) \<and>
             (doy \<in> set (index temp_dev) \<and> y \<in> set (columns temp_dev) \<and> cell temp_dev y doy = Some t) \<and>
             g > HIGH_USAGE_THRESHOLD th \<and> t > 0))"
proof -
  let ?R = "high_usage_warm_days th (merge_inner (stack dev_gas) (stack temp_dev))"
  have mem: "(doy, y, g, t) \<in> set ?R \<longleftrightarrow>
        (doy \<in> set (index dev_gas) \<and> y \<in> set (columns dev_gas) \<and> cell dev_gas y doy = Some g) \<and>
        (doy \<in> set (index temp_dev) \<and> y \<in> set (columns temp_dev) \<and> cell temp_dev y doy = Some t) \<and>
        g > HIGH_USAGE_THRESHOLD th \<and> t > 0" for doy y g t
    by (simp add: set_warm_days set_merge_inner set_stack)
  have ex: "(\<exists>x. x \<in> set ?R) \<longleftrightarrow> (\<exists>doy y g t. (doy, y, g, t) \<in> set ?R)"
    by (metis prod_cases4)
  have "?R = [] \<longleftrightarrow> \<not> (\<exists>x. x \<in> set ?R)"
    by (cases ?R) auto
  also note ex
  finally have emp: "?R = [] \<longleftrightarrow> \<not> (\<exists>doy y g t. (doy, y, g, t) \<in> set ?R)" .
  show ?thesis using mem emp by simp
qed

theorem anomaly_row_iff_witness:
  "(10, 2024, 3, 3 / 2) \<in> set (high_usage_warm_days script_thresholds
        (merge_inner (stack example_dev_a) (stack example_dev_b))) \<and>
   high_usage_warm_days script_thresholds
        (merge_inner (stack example_dev_low) (stack example_dev_b)) = []"
proof -
  have "(10, 2024, 3, 3 / 2) \<in> set (high_usage_warm_days script_thresholds
        (merge_inner (stack example_dev_a) (stack example_dev_b)))"
    using conjunct1 [OF anomaly_row_iff [of 10 2024 3 "3 / 2" script_thresholds example_dev_a example_dev_b]]
    by (simp add: example_dev_a_def example_dev_b_def script_thresholds_def)
  moreover have "high_usage_warm_days script_thresholds
        (merge_inner (stack example_dev_low) (stack example_dev_b)) = []"
    using conjunct2 [OF anomaly_row_iff [of _ _ _ _ script_thresholds example_dev_low example_dev_b]]
    by (simp add: example_dev_low_def example_dev_b_def script_thresholds_def)
  ultimately show ?thesis by simp
qed

lemma deviation_strict_sorted:
  "sorted_wrt (<) (index (deviation (pivot_frame d)))" "sorted_wrt (<) (columns (deviation (pivot_frame d)))"
  by (simp_all add: deviation_labels strict_sorted_iff pivot_frame_labels)

text \<open>
  C6, as the claim states it, fails: the flagged rows are not ordered by year first. Here
  day 5 of 2024 comes before day 10 of 2023.
\<close>

theorem anomaly_rows_not_year_first:
  "high_usage_warm_days script_thresholds
     (merge_inner (stack (deviation (pivot_frame example_gas)))
                  (stack (deviation (pivot_frame example_temp))))
     = [(5, 2024, 5, 2), (10, 2023, 5, 3 / 2)] \<and>
   \<not> sorted (map year_key (high_usage_warm_days script_thresholds
     (merge_inner (stack (deviation (pivot_frame example_gas)))
                  (stack (deviation (pivot_frame example_temp))))))"
  by code_simp

text \<open>
  C6, amended: the flagged rows are ordered by day of year ascending, then year
  ascending, and no (day of year, year) key occurs twice.
\<close>

theorem anomaly_rows_ordered:
  assumes "pivot gas = Inr daily_gas_pivot" and "pivot temp = Inr daily_temp_pivot"
  shows "sorted (map row_key (high_usage_warm_days th
           (merge_inner (stack (deviation daily_gas_pivot)) (stack (deviation daily_temp_pivot))))) \<and>
         distinct (map row_key (high_usage_warm_days th
           (merge_inner (stack (deviation daily_gas_pivot)) (stack (deviation daily_temp_pivot)))))"
proof -
  have g: "daily_gas_pivot = pivot_frame gas" and t: "daily_temp_pivot = pivot_frame temp"
    using assms by (simp_all add: pivot_Inr)
  have l: "sorted_wrt (<) (map dev_key (stack (deviation daily_gas_pivot)))"
    unfolding g by (intro stack_strict_sorted deviation_strict_sorted)
  have "sorted_wrt (<) (map dev_key (stack (deviation daily_temp_pivot)))"
    unfolding t by (intro stack_strict_sorted deviation_strict_sorted)
  then have r: "distinct (map dev_key (stack (deviation daily_temp_pivot)))"
    by (simp add: strict_sorted_iff)
  have "sorted_wrt (<) (map row_key (high_usage_warm_days th
           (merge_inner (stack (deviation daily_gas_pivot)) (stack (deviation daily_temp_pivot)))))"
    using l r by (rule warm_days_strict_sorted)
  then show ?thesis by (simp add: strict_sorted_iff)
qed

theorem anomaly_rows_ordered_witness:
  "pivot example_gas = Inr (pivot_frame example_gas) \<and>
   pivot example_temp = Inr (pivot_frame example_temp) \<and>
   sorted (map row_key (high_usage_warm_days script_thresholds
     (merge_inner (stack (deviation (pivot_frame example_gas)))
                  (stack (deviation (pivot_frame example_temp)))))) \<and>
   distinct (map row_key (high_usage_warm_days script_thresholds
     (merge_inner (stack (deviation (pivot_frame example_gas)))
                  (stack (deviation (pivot_frame example_temp))))))"
proof -
  have g: "pivot example_gas = Inr (pivot_frame example_gas)"
    by (simp add: pivot_def example_gas_def)
  have t: "pivot example_temp = Inr (pivot_frame example_temp)"
    by (simp add: pivot_def example_temp_def)
  from anomaly_rows_ordered [OF g t, of script_thresholds] g t show ?thesis by simp
qed

lemma warm_days_low:
  "high_usage_warm_days (th\<lparr>LOW_TEMP_THRESHOLD := x\<rparr>) m = high_usage_warm_days th m"
  by (simp add: high_usage_warm_days_def)

lemma report_low:
  "report (th\<lparr>LOW_TEMP_THRESHOLD := x\<rparr>) ce cg a b c = report th ce cg a b c"
  by (simp add: report_def warm_days_low)

lemma run_low:
  "run (th\<lparr>LOW_TEMP_THRESHOLD := x\<rparr>) elec_df gas_df temp_df = run th elec_df gas_df temp_df"
  unfolding run_def report_low by (rule refl)

text \<open>
  C10: the filter tests the temperature deviation against the fixed bound 0. The
  constant \<open>LOW_TEMP_THRESHOLD\<close> is not read: changing it changes neither the flagged
  rows of any merged deviation table nor the result of a run.
\<close>

theorem low_temp_threshold_unused:
  "high_usage_warm_days (th\<lparr>LOW_TEMP_THRESHOLD := x\<rparr>) m =
     filter (\<lambda>(doy, y, gas_dev, temp_dev). gas_dev > HIGH_USAGE_THRESHOLD th \<and> temp_dev > 0) m \<and>
   run (th\<lparr>LOW_TEMP_THRESHOLD := x\<rparr>) elec_df gas_df temp_df = run th elec_df gas_df temp_df"
  by (simp add: run_low) (simp add: high_usage_warm_days_def)

theorem low_temp_threshold_unused_witness:
  "high_usage_warm_days \<lparr>HIGH_USAGE_THRESHOLD = 2, LOW_TEMP_THRESHOLD = 100\<rparr>
      [(10, 2024, 3, 3 / 2), (11, 2024, 3, - 2), (12, 2024, 1, 5)] = [(10, 2024, 3, 3 / 2)]"
  using conjunct1 [OF low_temp_threshold_unused [where th = script_thresholds and x = 100
      and m = "[(10, 2024, 3, 3 / 2), (11, 2024, 3, - 2), (12, 2024, 1, 5)]"]]
  by (simp add: script_thresholds_def)

section \<open>The aggregation\<close>

lemma cell_usage_sum:
  "cell (pivot_frame (daily_usage rows)) y doy =
     (if \<exists>r\<in>set rows. Year r = y \<and> DayOfYear r = doy
      then Some (sum_list (present (map Usage (filter (\<lambda>r. Year r = y \<and> DayOfYear r = doy) rows))))
      else None)"
proof -
  have a: "group_rows rows (y, doy) = filter (\<lambda>r. Year r = y \<and> DayOfYear r = doy) rows"
    by (simp add: group_rows_def group_key_def)
  have b: "(y, doy) \<in> group_key ` set rows \<longleftrightarrow> (\<exists>r\<in>set rows. Year r = y \<and> DayOfYear r = doy)"
    by (auto simp: group_key_def image_iff)
  show ?thesis
    by (simp only: cell_daily_usage a b nansum_def)
qed

lemma cell_temp_mean:
  "cell (pivot_frame (daily_temp rows)) y doy =
     (if \<exists>r\<in>set rows. Year r = y \<and> DayOfYear r = doy
      then nanmean (map Avg_Temp_C (filter (\<lambda>r. Year r = y \<and> DayOfYear r = doy) rows))
      else None)"
proof -
  have a: "group_rows rows (y, doy) = filter (\<lambda>r. Year r = y \<and> DayOfYear r = doy) rows"
    by (simp add: group_rows_def group_key_def)
  have b: "(y, doy) \<in> group_key ` set rows \<longleftrightarrow> (\<exists>r\<in>set rows. Year r = y \<and> DayOfYear r = doy)"
    by (auto simp: group_key_def image_iff)
  show ?thesis
    by (simp only: cell_daily_temp a b)
qed

lemma example_run_reaches_report:
  "\<exists>ce cg. run script_thresholds example_elec_df example_gas_df example_temp_df =
     Inr (report script_thresholds ce cg
            (pivot_frame (daily_usage (merge_left example_elec_df example_temp_df)))
            (pivot_frame (daily_usage (merge_left example_gas_df example_temp_df)))
            (pivot_frame (daily_temp (merge_left example_elec_df example_temp_df))))"
proof -
  have ve: "valid_pairs (merge_left example_elec_df example_temp_df) = [(5, 6), (3, 6), (7, 9)]"
    by code_simp
  have vg: "valid_pairs (merge_left example_gas_df example_temp_df) = [(4, 6), (2, 9)]"
    by code_simp
  have "corr (merge_left example_elec_df example_temp_df) \<noteq> None"
    by (simp add: corr_def ve pearson_def Let_def)
  then obtain ce where ce: "corr (merge_left example_elec_df example_temp_df) = Some ce"
    by auto
  have "corr (merge_left example_gas_df example_temp_df) \<noteq> None"
    by (simp add: corr_def vg pearson_def Let_def)
  then obtain cg where cg: "corr (merge_left example_gas_df example_temp_df) = Some cg"
    by auto
  have ne: "example_elec_df \<noteq> []" "example_gas_df \<noteq> []"
    by (simp_all add: example_elec_df_def example_gas_df_def)
  have "run script_thresholds example_elec_df example_gas_df example_temp_df =
     Inr (report script_thresholds ce cg
            (pivot_frame (daily_usage (merge_left example_elec_df example_temp_df)))
            (pivot_frame (daily_usage (merge_left example_gas_df example_temp_df)))
            (pivot_frame (daily_temp (merge_left example_elec_df example_temp_df))))"
    by (simp add: run_def Let_def ne ce cg pivot_daily_usage pivot_daily_temp)
  then show ?thesis by blast
qed

text \<open>
  C4, as the claim states it, fails for the temperature. On these tables the run passes
  every check and reaches the aggregation of the temperature. The two electricity
  readings of the first day, each aligned with that day's temperature 6, give the usage
  cell 5 + 3 = 8 but the temperature cell 6, their mean, where their sum is 12; the
  temperature baseline of the run shows the 6.
\<close>

theorem temperature_not_summed:
  "daily_usage (merge_left example_elec_df example_temp_df) =
     [((2024, 1), Some 8), ((2024, 2), Some 7)] \<and>
   daily_temp (merge_left example_elec_df example_temp_df) =
     [((2024, 1), Some 6), ((2024, 2), Some 9)] \<and>
   nansum (map Avg_Temp_C (group_rows (merge_left example_elec_df example_temp_df) (2024, 1))) = 12 \<and>
   (case run script_thresholds example_elec_df example_gas_df example_temp_df of
      Inl e \<Rightarrow> None
    | Inr res \<Rightarrow> Some (std_temp_day res)) = Some [(1, Some 6), (2, Some 9)]"
proof -
  have a: "daily_usage (merge_left example_elec_df example_temp_df) =
     [((2024, 1), Some 8), ((2024, 2), Some 7)]"
    by code_simp
  have b: "daily_temp (merge_left example_elec_df example_temp_df) =
     [((2024, 1), Some 6), ((2024, 2), Some 9)]"
    by code_simp
  have c: "nansum (map Avg_Temp_C (group_rows (merge_left example_elec_df example_temp_df) (2024, 1))) = 12"
    by code_simp
  have m: "mean_axis1 (pivot_frame (daily_temp (merge_left example_elec_df example_temp_df))) =
     [(1, Some 6), (2, Some 9)]"
    by code_simp
  from example_run_reaches_report obtain ce cg where
    "run script_thresholds example_elec_df example_gas_df example_temp_df =
     Inr (report script_thresholds ce cg
            (pivot_frame (daily_usage (merge_left example_elec_df example_temp_df)))
            (pivot_frame (daily_usage (merge_left example_gas_df example_temp_df)))
            (pivot_frame (daily_temp (merge_left example_elec_df example_temp_df))))"
    by blast
  then have d: "(case run script_thresholds example_elec_df example_gas_df example_temp_df of
      Inl e \<Rightarrow> None
    | Inr res \<Rightarrow> Some (std_temp_day res)) = Some [(1, Some 6), (2, Some 9)]"
    by (simp add: report_def Let_def m)
  from a b c d show ?thesis by simp
qed

text \<open>
  C4, amended: both aggregations group by (year, day of year). The usage cell of a key is
  the sum of the usage values of all rows with that key. The temperature cell of a key is
  the arithmetic mean of the temperatures of the rows with that key, absent when none of
  them has a temperature. A key without rows has no cell.
\<close>

theorem usage_summed_temperature_averaged:
  "cell (pivot_frame (daily_usage rows)) y doy =
     (if \<exists>r\<in>set rows. Year r = y \<and> DayOfYear r = doy
      then Some (sum_list (present (map Usage (filter (\<lambda>r. Year r = y \<and> DayOfYear r = doy) rows))))
      else None) \<and>
   cell (pivot_frame (daily_temp rows)) y doy =
     (if \<exists>r\<in>set rows. Year r = y \<and> DayOfYear r = doy
      then (let vs = present (map Avg_Temp_C (filter (\<lambda>r. Year r = y \<and> DayOfYear r = doy) rows))
            in if vs = [] then None else Some (sum_list vs / real (length vs)))
      else None)"
  using cell_usage_sum [of rows y doy] cell_temp_mean [of rows y doy]
  by (simp only: nanmean_def)

theorem usage_summed_temperature_averaged_witness:
  "cell (pivot_frame (daily_usage (merge_left example_elec_df example_temp_df))) 2024 1 = Some 8 \<and>
   cell (pivot_frame (daily_temp (merge_left example_elec_df example_temp_df))) 2024 1 = Some 6 \<and>
   cell (pivot_frame (daily_temp (merge_left example_elec_df example_temp_df))) 2024 3 = None"
proof -
  let ?m = "merge_left example_elec_df example_temp_df"
  have e: "\<exists>r\<in>set ?m. Year r = 2024 \<and> DayOfYear r = 1" by code_simp
  have n: "\<not> (\<exists>r\<in>set ?m. Year r = 2024 \<and> DayOfYear r = 3)" by code_simp
  have u: "present (map Usage (filter (\<lambda>r. Year r = 2024 \<and> DayOfYear r = 1) ?m)) = [5, 3]"
    by code_simp
  have a: "present (map Avg_Temp_C (filter (\<lambda>r. Year r = 2024 \<and> DayOfYear r = 1) ?m)) = [6, 6]"
    by code_simp
  note t = usage_summed_temperature_averaged [of ?m 2024 1]
  have "cell (pivot_frame (daily_usage ?m)) 2024 1 = Some 8"
    using conjunct1 [OF t, unfolded u if_P [OF e]] by simp
  moreover have "cell (pivot_frame (daily_temp ?m)) 2024 1 = Some 6"
    using conjunct2 [OF t, unfolded a if_P [OF e]] by simp
  moreover have "cell (pivot_frame (daily_temp ?m)) 2024 3 = None"
    using conjunct2 [OF usage_summed_temperature_averaged [of ?m 2024 3], unfolded if_not_P [OF n]]
    by simp
  ultimately show ?thesis by simp
qed

end
